theory Spec2Isabelle
  imports Complex_Main
begin

section \<open>Gauss-Legendre quadrature script \<^verbatim>\<open>cuadrature.py\<close>\<close>

text \<open>
  The script works on Python/numpy floats. Here a float is read as the real number it
  stands for and every arithmetic operation is exact: rounding is not part of this
  development, and no property that rounding can break (an exact identity between two
  ways of computing a sum, a computed node staying inside its interval) is stated below.
  A one-dimensional \<^verbatim>\<open>numpy.ndarray\<close> is a \<^typ>\<open>real list\<close>.
\<close>

subsection \<open>The numpy operations the script uses\<close>

datatype np_error = ValueError

text \<open>\<^verbatim>\<open>c * arr\<close> and \<^verbatim>\<open>arr + d\<close> with a scalar operand: numpy applies the
  operation to every element; a scalar operand can never cause a shape error.\<close>

definition np_smul :: "real \<Rightarrow> real list \<Rightarrow> real list" where
  "np_smul c xs = map (\<lambda>x. c * x) xs"

definition np_sadd :: "real list \<Rightarrow> real \<Rightarrow> real list" where
  "np_sadd xs d = map (\<lambda>x. x + d) xs"

text \<open>\<^verbatim>\<open>xs * ys\<close> on two one-dimensional arrays: elementwise when the lengths agree,
  an array of length one is broadcast over the other, and every other pair of shapes
  raises \<^verbatim>\<open>ValueError\<close> (operands could not be broadcast together). A scalar result
  of the integrand is represented by an array of length one, which broadcasts alike.\<close>

definition np_mul :: "real list \<Rightarrow> real list \<Rightarrow> np_error + real list" where
  "np_mul xs ys =
     (if length xs = length ys then Inr (map2 (\<lambda>x y. x * y) xs ys)
      else if length xs = 1 then Inr (map (\<lambda>y. hd xs * y) ys)
      else if length ys = 1 then Inr (map (\<lambda>x. x * hd ys) xs)
      else Inl ValueError)"

text \<open>\<^verbatim>\<open>np.sum\<close> of a one-dimensional array.\<close>

definition np_sum :: "real list \<Rightarrow> real" where
  "np_sum xs = sum_list xs"

text \<open>
  \<^verbatim>\<open>x / y\<close> on numpy floats does not raise when \<open>y\<close> is zero: it yields \<^verbatim>\<open>inf\<close> or
  \<^verbatim>\<open>nan\<close> (with a warning). These two values are the one value \<open>NonFinite\<close> here; the
  real zero is read as the float \<^verbatim>\<open>+0.0\<close>, so that the quotient of a non-negative
  numerator is \<^verbatim>\<open>+inf\<close> or \<^verbatim>\<open>nan\<close>, and both compare \<^verbatim>\<open>False\<close> under \<^verbatim>\<open><\<close>.
  The float \<^verbatim>\<open>-0.0\<close>, whose quotient would be \<^verbatim>\<open>-inf\<close>, has no counterpart among
  the reals; the divisor of \<^verbatim>\<open>main\<close> is not zero (see \<open>reference_value_bounds\<close>).
\<close>

datatype npfloat = Fin real | NonFinite

definition np_true_divide :: "real \<Rightarrow> real \<Rightarrow> npfloat" where
  "np_true_divide x y = (if y = 0 then NonFinite else Fin (x / y))"

definition np_less :: "npfloat \<Rightarrow> real \<Rightarrow> bool" where
  "np_less e t = (case e of Fin r \<Rightarrow> r < t | NonFinite \<Rightarrow> False)"

subsection \<open>\<^verbatim>\<open>gaussxw\<close>: nodes and weights on [-1, 1]\<close>

text \<open>
  \<^verbatim>\<open>pto, peso = np.polynomial.legendre.leggauss(N)
  return pto, peso\<close>
  The function only forwards to numpy's \<^verbatim>\<open>leggauss\<close>, a library routine that is not
  part of the script; it is a parameter here, giving for each order a pair of arrays.
\<close>

definition gaussxw :: "(nat \<Rightarrow> real list \<times> real list) \<Rightarrow> nat \<Rightarrow> real list \<times> real list" where
  "gaussxw leggauss N = leggauss N"

subsection \<open>\<^verbatim>\<open>gaussxwab\<close>: scaling a rule from [-1, 1] to [liminf, limsup]\<close>

text \<open>
  \<^verbatim>\<open>return (0.5 * (limsup - liminf) * pto + 0.5 * (limsup + liminf),
          0.5 * (limsup - liminf) * peso)\<close>
  The function has no check on its bounds and no failure path.
\<close>

definition gaussxwab :: "real \<Rightarrow> real \<Rightarrow> real list \<Rightarrow> real list \<Rightarrow> real list \<times> real list" where
  "gaussxwab liminf limsup pto peso =
     (np_sadd (np_smul (0.5 * (limsup - liminf)) pto) (0.5 * (limsup + liminf)),
      np_smul (0.5 * (limsup - liminf)) peso)"

subsection \<open>\<^verbatim>\<open>eva_int\<close>: the weighted sum\<close>

text \<open>
  \<^verbatim>\<open>return np.sum(peso * func(pto))\<close>
  The integrand is called once, on the whole array of nodes; \<open>func\<close> is therefore a
  function from arrays to arrays. A scalar function \<open>f\<close> written with numpy's
  elementwise operators acts on an array as \<^term>\<open>map f\<close>.
\<close>

definition eva_int :: "real list \<Rightarrow> real list \<Rightarrow> (real list \<Rightarrow> real list) \<Rightarrow> np_error + real" where
  "eva_int pto peso func =
     (case np_mul peso (func pto) of
        Inl e \<Rightarrow> Inl e
      | Inr prods \<Rightarrow> Inr (np_sum prods))"

subsection \<open>The integrand and its antiderivative\<close>



subsection \<open>\<^verbatim>\<open>main\<close>: the search for the order\<close>

text \<open>
  The variables of the \<^verbatim>\<open>while True\<close> loop: the counter \<^verbatim>\<open>N\<close> (here \<open>N_cur\<close>) and
  the three lists the loop appends to.
\<close>

record loop_state =
  N_cur :: nat
  N_valores :: "nat list"
  integral_valores :: "real list"
  errores :: "npfloat list"

text \<open>
  The first three statements of the loop body, for the order \<open>n\<close>:
  \<^verbatim>\<open>pto, peso = gaussxw(N)
  pto_esc, peso_esc = gaussxwab(1, 3, pto, peso)
  approx = eva_int(pto_esc, peso_esc, func_arg_int)\<close>
\<close>

definition trial_approx ::
  "(nat \<Rightarrow> real list \<times> real list) \<Rightarrow> real \<Rightarrow> real \<Rightarrow> (real list \<Rightarrow> real list) \<Rightarrow> nat
     \<Rightarrow> np_error + real" where
  "trial_approx leggauss a b func n =
     (case gaussxw leggauss n of (pto, peso) \<Rightarrow>
      case gaussxwab a b pto peso of (pto_esc, peso_esc) \<Rightarrow>
        eva_int pto_esc peso_esc func)"

text \<open>\<^verbatim>\<open>err = abs(approx - analytic) / analytic\<close>\<close>

definition rel_err :: "real \<Rightarrow> real \<Rightarrow> npfloat" where
  "rel_err approx analytic = np_true_divide \<bar>approx - analytic\<bar> analytic"

text \<open>
  The loop, with the constants of \<^verbatim>\<open>main\<close> as parameters: the bounds \<open>a\<close>, \<open>b\<close>
  (1 and 3), the integrand \<open>func\<close>, the reference value \<open>analytic\<close>, the tolerance
  \<open>tol\<close> (\<^verbatim>\<open>1e-10\<close>) and the cap \<open>cap\<close> (50).
  \<^verbatim>\<open>while True:
      ...
      N_valores.append(N); integral_valores.append(approx); errores.append(err)
      if err < tol: break
      N += 1
      if N > 50: break\<close>
  An exception raised by the body ends the run.
\<close>

function search ::
  "(nat \<Rightarrow> real list \<times> real list) \<Rightarrow> real \<Rightarrow> real \<Rightarrow> (real list \<Rightarrow> real list) \<Rightarrow> real \<Rightarrow> real
     \<Rightarrow> nat \<Rightarrow> loop_state \<Rightarrow> np_error + loop_state" where
  "search leggauss a b func analytic tol cap st =
     (case trial_approx leggauss a b func (N_cur st) of
        Inl e \<Rightarrow> Inl e
      | Inr approx \<Rightarrow>
          (let err = rel_err approx analytic;
               st1 = st\<lparr>N_valores := N_valores st @ [N_cur st],
                        integral_valores := integral_valores st @ [approx],
                        errores := errores st @ [err]\<rparr>
           in if np_less err tol then Inr st1
              else if N_cur st + 1 > cap then Inr (st1\<lparr>N_cur := N_cur st + 1\<rparr>)
              else search leggauss a b func analytic tol cap (st1\<lparr>N_cur := N_cur st + 1\<rparr>)))"
  by pat_completeness auto
termination
  by (relation "measure (\<lambda>(leggauss, a, b, func, analytic, tol, cap, st). cap - N_cur st)") auto

declare search.simps [simp del]

text \<open>\<^verbatim>\<open>N = 1; N_valores = []; integral_valores = []; errores = []\<close>\<close>

definition init_state :: loop_state where
  "init_state = \<lparr>N_cur = 1, N_valores = [], integral_valores = [], errores = []\<rparr>"



subsection \<open>The generator of nodes and weights, from the specification\<close>

text \<open>
  Modelled from the spec: \<^verbatim>\<open>numpy.polynomial.legendre.leggauss\<close>, the routine \<^verbatim>\<open>gaussxw\<close>
  calls, is not among the sources. The specification (section 4.1) describes the generator
  in its place: Newton-Raphson on the Legendre polynomial of degree \<open>N\<close>, one root for each
  index \<open>i = 0, \<dots>, N - 1\<close>. A root that does not converge is a \<open>NumericalFailure\<close> naming
  the order and the index of the root. The loop of \<^verbatim>\<open>main\<close> above takes any
  \<open>leggauss\<close>; this model serves only for what the generator itself returns.
\<close>

datatype gen_error = NumericalFailure nat nat

text \<open>
  Modelled from the spec: the three-term recurrence
  \<open>P\<^sub>0 = 1\<close>, \<open>P\<^sub>1 = x\<close>, \<open>(k + 1) P\<^bsub>k+1\<^esub>(x) = (2k + 1) x P\<^sub>k(x) - k P\<^bsub>k-1\<^esub>(x)\<close>;
  the third equation is the recurrence at \<open>k + 1\<close>.
\<close>

fun legendre_P :: "nat \<Rightarrow> real \<Rightarrow> real" where
  "legendre_P 0 x = 1"
| "legendre_P (Suc 0) x = x"
| "legendre_P (Suc (Suc k)) x =
     ((2 * real (Suc k) + 1) * x * legendre_P (Suc k) x - real (Suc k) * legendre_P k x)
       / (real (Suc k) + 1)"

text \<open>Modelled from the spec: \<open>P'\<^sub>N(x) = N (x P\<^sub>N(x) - P\<^bsub>N-1\<^esub>(x)) / (x\<^sup>2 - 1)\<close>.\<close>

definition legendre_dP :: "nat \<Rightarrow> real \<Rightarrow> real" where
  "legendre_dP N x = real N * (x * legendre_P N x - legendre_P (N - 1) x) / (x\<^sup>2 - 1)"

text \<open>Modelled from the spec: the initial guess \<open>cos(\<pi> (i + 0.75) / (N + 0.5))\<close> for the
  root of index \<open>i\<close>.\<close>

definition initial_guess :: "nat \<Rightarrow> nat \<Rightarrow> real" where
  "initial_guess N i = cos (pi * (real i + 0.75) / (real N + 0.5))"

text \<open>
  Modelled from the spec: the iteration \<open>x \<leftarrow> x - P\<^sub>N(x) / P'\<^sub>N(x)\<close>, which stops when the
  size of the update falls below the tolerance \<open>tol\<close> and gives up (\<open>None\<close>) when the cap on
  the number of iterations, the fuel, is used up. Tolerance and cap are left to the
  implementer by the specification and are parameters here. A step whose quotient is not
  defined (\<open>x\<^sup>2 = 1\<close> or \<open>P'\<^sub>N(x) = 0\<close>) does not converge either.
\<close>

fun newton_root :: "real \<Rightarrow> nat \<Rightarrow> nat \<Rightarrow> real \<Rightarrow> real option" where
  "newton_root tol N 0 x = None"
| "newton_root tol N (Suc fuel) x =
     (if x\<^sup>2 = 1 \<or> legendre_dP N x = 0 then None
      else let dx = legendre_P N x / legendre_dP N x;
               x' = x - dx
           in if \<bar>dx\<bar> < tol then Some x' else newton_root tol N fuel x')"

text \<open>Modelled from the spec: the converged root and its weight
  \<open>2 / ((1 - x\<^sup>2) P'\<^sub>N(x)\<^sup>2)\<close>.\<close>

definition node_weight :: "real \<Rightarrow> nat \<Rightarrow> nat \<Rightarrow> nat \<Rightarrow> gen_error + real \<times> real" where
  "node_weight tol cap N i =
     (case newton_root tol N cap (initial_guess N i) of
        None \<Rightarrow> Inl (NumericalFailure N i)
      | Some x \<Rightarrow>
          if x\<^sup>2 = 1 \<or> legendre_dP N x = 0 then Inl (NumericalFailure N i)
          else Inr (x, 2 / ((1 - x\<^sup>2) * (legendre_dP N x)\<^sup>2)))"

text \<open>Modelled from the spec: the roots are found one after the other, and the first
  failure ends the generation with no rule returned.\<close>

fun collect :: "(nat \<Rightarrow> gen_error + real \<times> real) \<Rightarrow> nat list \<Rightarrow> gen_error + (real \<times> real) list" where
  "collect g [] = Inr []"
| "collect g (i # is) =
     (case g i of
        Inl e \<Rightarrow> Inl e
      | Inr p \<Rightarrow> (case collect g is of Inl e \<Rightarrow> Inl e | Inr ps \<Rightarrow> Inr (p # ps)))"

text \<open>
  Modelled from the spec: the generator. The initial guesses decrease with the index, so
  the indices are taken from \<open>N - 1\<close> down to 0 for the nodes to come out in increasing
  order.
\<close>

definition leggauss_spec :: "real \<Rightarrow> nat \<Rightarrow> nat \<Rightarrow> gen_error + real list \<times> real list" where
  "leggauss_spec tol cap N =
     (case collect (node_weight tol cap N) (rev [0..<N]) of
        Inl e \<Rightarrow> Inl e
      | Inr ps \<Rightarrow> Inr (map fst ps, map snd ps))"

section \<open>Properties\<close>

subsection \<open>Auxiliary facts on sums\<close>

lemma sum_list_map2_nth:
  "length ws = length vs \<Longrightarrow>
     sum_list (map2 (\<lambda>x y. x * y) ws vs) = (\<Sum>i<length ws. ws ! i * vs ! i)"
  for ws vs :: "real list"
proof (induction ws vs rule: list_induct2)
  case Nil
  show ?case by simp
next
  case (Cons w ws v vs)
  have "(\<Sum>i<Suc (length ws). (w # ws) ! i * (v # vs) ! i)
          = w * v + (\<Sum>i<length ws. ws ! i * vs ! i)"
    by (simp add: sum.lessThan_Suc_shift del: sum.lessThan_Suc)
  with Cons show ?case by simp
qed

subsection \<open>The interval mapper\<close>

text \<open>
  C3. For every rule (nodes \<open>pto\<close>, weights \<open>peso\<close>) and all bounds \<open>a\<close>, \<open>b\<close>,
  \<^const>\<open>gaussxwab\<close> returns arrays of the lengths of its inputs whose \<open>i\<close>-th node is
  \<open>0.5 (b - a) x\<^sub>i + 0.5 (b + a)\<close> and whose \<open>i\<close>-th weight is \<open>0.5 (b - a) w\<^sub>i\<close>.
\<close>

theorem gaussxwab_formula:
  "length (fst (gaussxwab a b pto peso)) = length pto \<and>
   length (snd (gaussxwab a b pto peso)) = length peso \<and>
   (\<forall>i<length pto. fst (gaussxwab a b pto peso) ! i = 0.5 * (b - a) * pto ! i + 0.5 * (b + a)) \<and>
   (\<forall>i<length peso. snd (gaussxwab a b pto peso) ! i = 0.5 * (b - a) * peso ! i)"
  by (simp add: gaussxwab_def np_sadd_def np_smul_def)

theorem gaussxwab_formula_witness:
  "fst (gaussxwab 1 3 [-1/2, 1/2] [1, 1]) ! 1 = 5/2 \<and>
   snd (gaussxwab 1 3 [-1/2, 1/2] [1, 1]) ! 0 = 1 \<and>
   length (fst (gaussxwab 1 3 [-1/2, 1/2] [1, 1])) = 2"
  using gaussxwab_formula [of 1 3 "[-1/2, 1/2]" "[1, 1]"] by simp

subsection \<open>The quadrature evaluator\<close>

text \<open>
  C4. For every rule of index-aligned nodes and weights (arrays of one length) and every
  scalar integrand \<open>f\<close>, applied elementwise, \<^const>\<open>eva_int\<close> returns the weighted sum
  of the values \<open>f x\<^sub>i\<close>; each node contributes \<open>w\<^sub>i f(x\<^sub>i)\<close> and nothing else.
\<close>

theorem eva_int_weighted_sum:
  "length pto = length peso \<Longrightarrow>
     eva_int pto peso (map f) = Inr (\<Sum>i<length pto. peso ! i * f (pto ! i))"
proof -
  assume len: "length pto = length peso"
  then have "sum_list (map2 (\<lambda>x y. x * y) peso (map f pto))
               = (\<Sum>i<length peso. peso ! i * map f pto ! i)"
    by (simp add: sum_list_map2_nth)
  also have "\<dots> = (\<Sum>i<length pto. peso ! i * f (pto ! i))"
    using len by simp
  finally show ?thesis
    using len by (simp add: eva_int_def np_mul_def np_sum_def)
qed

theorem eva_int_weighted_sum_witness:
  "eva_int [1, 2] [3, 4] (map (\<lambda>x. x * x)) = Inr 19"
proof -
  have "length [1, 2 :: real] = length [3, 4 :: real]" by simp
  from eva_int_weighted_sum [OF this, of "\<lambda>x. x * x"]
  show ?thesis by (simp add: lessThan_Suc numeral_2_eq_2)
qed

subsection \<open>Bounds in the wrong order\<close>

text \<open>
  C5 as stated: bounds with \<open>a \<ge> b\<close> are rejected and no mapped rule is returned.
  \<^const>\<open>gaussxwab\<close> has no such check: on the reversed interval \<open>a = 3\<close>, \<open>b = 1\<close> it
  returns a rule, with a negative weight.
\<close>

theorem gaussxwab_reversed_counterexample:
  "gaussxwab 3 1 [0] [2] = ([2], [- 2])"
  by (simp add: gaussxwab_def np_sadd_def np_smul_def)

text \<open>
  C5, amended. For bounds with \<open>a \<ge> b\<close> the mapper checks nothing and returns the rule
  given by the same two formulas; the weights are multiplied by the factor
  \<open>0.5 (b - a) \<le> 0\<close>, so that no non-negative weight stays positive.
\<close>

theorem gaussxwab_no_rejection:
  "b \<le> a \<Longrightarrow>
     gaussxwab a b pto peso =
       (map (\<lambda>x. 0.5 * (b - a) * x + 0.5 * (b + a)) pto, map (\<lambda>w. 0.5 * (b - a) * w) peso) \<and>
     (\<forall>i<length peso. 0 \<le> peso ! i \<longrightarrow> snd (gaussxwab a b pto peso) ! i \<le> 0)"
  by (simp add: gaussxwab_def np_sadd_def np_smul_def mult_nonpos_nonneg)

theorem gaussxwab_no_rejection_witness:
  "gaussxwab 3 1 [-1/2, 1/2] [1, 1] = ([5/2, 3/2], [- 1, - 1])"
proof -
  have h: "(1::real) \<le> 3" by simp
  from gaussxwab_no_rejection [OF h, of "[-1/2, 1/2]" "[1, 1]"] show ?thesis by simp
qed

subsection \<open>The loop of \<^verbatim>\<open>main\<close>\<close>

text \<open>
  A run of the loop from a state whose counter is within the cap, when no trial raises:
  the state it ends in, the orders it has tried and why it stopped.
\<close>

lemma search_run:
  assumes ok: "\<And>n. trial_approx leggauss a b func n = Inr (ap n)"
  shows "N_cur st \<le> cap \<Longrightarrow>
    \<exists>k. N_cur st \<le> k \<and> k \<le> cap \<and>
      search leggauss a b func analytic tol cap st =
        Inr (st\<lparr>N_cur := (if np_less (rel_err (ap k) analytic) tol then k else Suc cap),
                N_valores := N_valores st @ [N_cur st..<Suc k],
                integral_valores := integral_valores st @ map ap [N_cur st..<Suc k],
                errores := errores st @ map (\<lambda>n. rel_err (ap n) analytic) [N_cur st..<Suc k]\<rparr>) \<and>
      (\<forall>j. N_cur st \<le> j \<and> j < k \<longrightarrow> \<not> np_less (rel_err (ap j) analytic) tol) \<and>
      (np_less (rel_err (ap k) analytic) tol \<or> k = cap)"
proof (induction "cap - N_cur st" arbitrary: st)
  case 0
  then have n: "N_cur st = cap" by simp
  show ?case
    apply (rule exI [of _ cap])
    apply (subst search.simps)
    apply (auto simp add: ok n Let_def)
    done
next
  case (Suc d)
  let ?n = "N_cur st"
  let ?st1 = "st\<lparr>N_valores := N_valores st @ [?n],
                  integral_valores := integral_valores st @ [ap ?n],
                  errores := errores st @ [rel_err (ap ?n) analytic]\<rparr>"
  let ?st2 = "?st1\<lparr>N_cur := ?n + 1\<rparr>"
  from Suc.hyps(2) have lt: "?n < cap" by simp
  show ?case
  proof (cases "np_less (rel_err (ap ?n) analytic) tol")
    case True
    show ?thesis
      apply (rule exI [of _ ?n])
      apply (subst search.simps)
      using lt True apply (auto simp add: ok Let_def)
      done
  next
    case False
    have d: "d = cap - N_cur ?st2" using Suc.hyps(2) by simp
    have le: "N_cur ?st2 \<le> cap" using lt by simp
    from Suc.hyps(1) [OF d le] obtain k where
      k: "Suc ?n \<le> k" "k \<le> cap"
      and run: "search leggauss a b func analytic tol cap ?st2 =
        Inr (?st2\<lparr>N_cur := (if np_less (rel_err (ap k) analytic) tol then k else Suc cap),
                N_valores := N_valores ?st2 @ [N_cur ?st2..<Suc k],
                integral_valores := integral_valores ?st2 @ map ap [N_cur ?st2..<Suc k],
                errores := errores ?st2 @ map (\<lambda>n. rel_err (ap n) analytic) [N_cur ?st2..<Suc k]\<rparr>)"
      and before: "\<forall>j. Suc ?n \<le> j \<and> j < k \<longrightarrow> \<not> np_less (rel_err (ap j) analytic) tol"
      and last: "np_less (rel_err (ap k) analytic) tol \<or> k = cap"
      by auto
    have upt: "[?n..<Suc k] = ?n # [Suc ?n..<Suc k]"
      using k(1) by (simp add: upt_conv_Cons)
    have step: "search leggauss a b func analytic tol cap st =
                  search leggauss a b func analytic tol cap ?st2"
      apply (subst search.simps)
      using lt False apply (simp add: ok Let_def)
      done
    have all: "\<forall>j. ?n \<le> j \<and> j < k \<longrightarrow> \<not> np_less (rel_err (ap j) analytic) tol"
    proof (intro allI impI)
      fix j assume j: "?n \<le> j \<and> j < k"
      show "\<not> np_less (rel_err (ap j) analytic) tol"
      proof (cases "j = ?n")
        case True
        with False show ?thesis by simp
      next
        case False
        with j have "Suc ?n \<le> j \<and> j < k" by simp
        with before show ?thesis by blast
      qed
    qed
    have "search leggauss a b func analytic tol cap st =
        Inr (st\<lparr>N_cur := (if np_less (rel_err (ap k) analytic) tol then k else Suc cap),
                N_valores := N_valores st @ [?n..<Suc k],
                integral_valores := integral_valores st @ map ap [?n..<Suc k],
                errores := errores st @ map (\<lambda>n. rel_err (ap n) analytic) [?n..<Suc k]\<rparr>)"
      unfolding step run upt by simp
    moreover have "?n \<le> k" using k(1) by simp
    ultimately show ?thesis
      using k(2) all last by blast
  qed
qed


text \<open>With arrays of nodes and weights of one length and an elementwise integrand, a
  trial raises nothing.\<close>

lemma trial_approx_aligned:
  assumes "\<And>n. length (fst (leggauss n)) = length (snd (leggauss n))"
  shows "\<exists>r. trial_approx leggauss a b (map f) n = Inr r"
proof -
  obtain pto peso where lg: "leggauss n = (pto, peso)" by (cases "leggauss n")
  with assms [of n] have "length pto = length peso" by simp
  then show ?thesis
    by (simp add: trial_approx_def gaussxw_def lg gaussxwab_def np_sadd_def np_smul_def
          eva_int_def np_mul_def)
qed

text \<open>
  C2. The search tries the orders 1, 2, 3, \<dots> in this sequence and appends one record
  (order, approximation, error) per trial; it stops at the first order \<open>k\<close> whose error is
  below the tolerance, leaving \<open>N = k\<close>, and otherwise after the trial of order \<open>cap\<close>,
  leaving \<open>N = cap + 1\<close>; it always returns, after at most \<open>cap\<close> trials. (The script has
  no flag for the outcome: the final \<open>N\<close> tells the two apart. Its cap is 50.)
\<close>

theorem search_sequence:
  assumes "\<And>n. length (fst (leggauss n)) = length (snd (leggauss n))" and "1 \<le> cap"
  shows "\<exists>k st. search leggauss a b (map f) analytic tol cap init_state = Inr st \<and>
      1 \<le> k \<and> k \<le> cap \<and>
      N_valores st = [1..<Suc k] \<and> length (integral_valores st) = k \<and> length (errores st) = k \<and>
      (\<forall>j<k. trial_approx leggauss a b (map f) (Suc j) = Inr (integral_valores st ! j) \<and>
              errores st ! j = rel_err (integral_valores st ! j) analytic) \<and>
      (\<forall>j<k - 1. \<not> np_less (errores st ! j) tol) \<and>
      (if np_less (errores st ! (k - 1)) tol then N_cur st = k else k = cap \<and> N_cur st = Suc cap)"
proof -
  have "\<exists>r. trial_approx leggauss a b (map f) n = Inr r" for n
    using assms(1) by (rule trial_approx_aligned)
  then obtain ap where ok: "\<And>n. trial_approx leggauss a b (map f) n = Inr (ap n)"
    by metis
  let ?er = "\<lambda>n. rel_err (ap n) analytic"
  have "N_cur init_state \<le> cap" using assms(2) by (simp add: init_state_def)
  then have "\<exists>k. 1 \<le> k \<and> k \<le> cap \<and>
      search leggauss a b (map f) analytic tol cap init_state =
        Inr (init_state\<lparr>N_cur := (if np_less (?er k) tol then k else Suc cap),
                N_valores := [1..<Suc k],
                integral_valores := map ap [1..<Suc k],
                errores := map ?er [1..<Suc k]\<rparr>) \<and>
      (\<forall>j. 1 \<le> j \<and> j < k \<longrightarrow> \<not> np_less (?er j) tol) \<and>
      (np_less (?er k) tol \<or> k = cap)"
    using search_run [of leggauss a b "map f" ap init_state cap analytic tol, OF ok]
    by (simp add: init_state_def del: upt_Suc)
  then obtain k where k: "1 \<le> k" "k \<le> cap"
    and run: "search leggauss a b (map f) analytic tol cap init_state =
        Inr (init_state\<lparr>N_cur := (if np_less (?er k) tol then k else Suc cap),
                N_valores := [1..<Suc k],
                integral_valores := map ap [1..<Suc k],
                errores := map ?er [1..<Suc k]\<rparr>)"
    and before: "\<forall>j. 1 \<le> j \<and> j < k \<longrightarrow> \<not> np_less (?er j) tol"
    and last: "np_less (?er k) tol \<or> k = cap"
    by (elim exE conjE)
  let ?st = "init_state\<lparr>N_cur := (if np_less (?er k) tol then k else Suc cap),
                N_valores := [1..<Suc k],
                integral_valores := map ap [1..<Suc k],
                errores := map ?er [1..<Suc k]\<rparr>"
  have nth: "[1..<Suc k] ! j = Suc j" if "j < k" for j
    using that by (simp add: nth_upt del: upt_Suc)
  have len: "length [1..<Suc k] = k" by simp
  have iv: "integral_valores ?st ! j = ap (Suc j)" if "j < k" for j
    using that by (simp add: nth len del: upt_Suc)
  have er: "errores ?st ! j = ?er (Suc j)" if "j < k" for j
    using that by (simp add: nth len del: upt_Suc)
  have c1: "\<forall>j<k. trial_approx leggauss a b (map f) (Suc j) = Inr (integral_valores ?st ! j) \<and>
              errores ?st ! j = rel_err (integral_valores ?st ! j) analytic"
    using iv er ok by simp
  have c2: "\<forall>j<k - 1. \<not> np_less (errores ?st ! j) tol"
  proof (intro allI impI)
    fix j assume j: "j < k - 1"
    then have "j < k" by simp
    then have "errores ?st ! j = ?er (Suc j)" by (rule er)
    moreover from j before have "\<not> np_less (?er (Suc j)) tol" by simp
    ultimately show "\<not> np_less (errores ?st ! j) tol" by simp
  qed
  have lastk: "errores ?st ! (k - 1) = ?er k"
    using er [of "k - 1"] k(1) by simp
  have c3: "if np_less (errores ?st ! (k - 1)) tol then N_cur ?st = k
            else k = cap \<and> N_cur ?st = Suc cap"
    unfolding lastk using last by auto
  have c0: "N_valores ?st = [1..<Suc k] \<and> length (integral_valores ?st) = k \<and>
            length (errores ?st) = k"
    by simp
  show ?thesis
    apply (rule exI [of _ k])
    apply (rule exI [of _ ?st])
    apply (intro conjI)
            apply (rule run)
           apply (rule k(1))
          apply (rule k(2))
         apply (rule c0 [THEN conjunct1])
        apply (rule c0 [THEN conjunct2, THEN conjunct1])
       apply (rule c0 [THEN conjunct2, THEN conjunct2])
      apply (rule c1)
     apply (rule c2)
    apply (rule c3)
    done
qed


theorem search_sequence_witness:
  "\<exists>k st. search (\<lambda>n. ([0], [real n])) 0 2 (map (\<lambda>x. x)) 3 (1 / 2) 50 init_state = Inr st \<and>
      1 \<le> k \<and> k \<le> 50 \<and>
      N_valores st = [1..<Suc k] \<and> length (integral_valores st) = k \<and> length (errores st) = k"
proof -
  have h1: "\<And>n. length (fst ([0::real], [real n])) = length (snd ([0::real], [real n]))"
    by simp
  have h2: "(1::nat) \<le> 50" by simp
  from search_sequence [of "\<lambda>n. ([0], [real n])" 50 0 2 "\<lambda>x. x" 3 "1 / 2", OF h1 h2]
  show ?thesis by blast
qed

text \<open>The run of the witness, evaluated.\<close>

lemma search_example:
  "search (\<lambda>n. ([0], [real n])) 0 2 (map (\<lambda>x. x)) 3 (1 / 2) 50 init_state =
     Inr \<lparr>N_cur = 2, N_valores = [1, 2], integral_valores = [1, 2],
          errores = [Fin (2 / 3), Fin (1 / 3)]\<rparr>"
  by (simp add: search.simps init_state_def trial_approx_def gaussxw_def gaussxwab_def
        np_sadd_def np_smul_def eva_int_def np_mul_def np_sum_def rel_err_def
        np_true_divide_def np_less_def Let_def)

subsection \<open>The reference value of \<^verbatim>\<open>main\<close>\<close>








subsection \<open>The errors \<^verbatim>\<open>main\<close> records\<close>





subsection \<open>The generator of the specification at order 1\<close>

lemma initial_guess_one: "initial_guess (Suc 0) 0 = 0"
proof -
  have "pi * (real 0 + 0.75) / (real (Suc 0) + 0.5) = pi / 2" by simp
  then show ?thesis by (simp only: initial_guess_def cos_pi_half)
qed

lemma legendre_dP_one_zero: "legendre_dP (Suc 0) 0 = 1"
  by (simp add: legendre_dP_def)

lemma newton_root_one:
  assumes "0 < tol" "0 < cap"
  shows "newton_root tol (Suc 0) cap 0 = Some 0"
proof -
  from assms(2) obtain c where cap: "cap = Suc c" by (cases cap) auto
  show ?thesis
    unfolding cap using assms(1) by (simp add: legendre_dP_one_zero Let_def)
qed

text \<open>
  C8. For the order 1 the generator yields the single node 0 and the single weight 2, for
  every positive tolerance and every positive cap on the iterations: the initial guess
  \<open>cos(\<pi>/2)\<close> is the root of \<open>P\<^sub>1\<close> itself.
\<close>

theorem leggauss_spec_one:
  "0 < tol \<Longrightarrow> 0 < cap \<Longrightarrow> leggauss_spec tol cap 1 = Inr ([0], [2])"
  unfolding One_nat_def
  by (simp add: leggauss_spec_def node_weight_def initial_guess_one newton_root_one
        legendre_dP_one_zero)

theorem leggauss_spec_one_witness:
  "leggauss_spec (1 / 10 ^ 15) 100 1 = Inr ([0], [2])"
  using leggauss_spec_one [of "1 / 10 ^ 15" 100] by simp


end
